theory Spec2Isabelle
  imports Main "HOL-Library.Word"
begin

section \<open>The guard daemon of fw\_force\_stop.cpp\<close>

text \<open>
  The development follows one operating-system process through the code of
  \<^verbatim>\<open>fw_force_stop.cpp\<close>. Everything the process does to the outside is a system call;
  each call is recorded, with its result, in the trace of the process, and its effect on the
  file system and on the advisory locks is made explicit in a state record. The other
  processes of the system are an environment that runs before every system call.
\<close>

subsection \<open>Parcels and embedded objects\<close>

type_synonym path = string

datatype parcel_item =
    Int32 int
  | String16 "string option"
  | InterfaceToken string
  | NullBinder

record flat_binder_object =
  fbo_type :: "32 word"
  fbo_flags :: "32 word"
  fbo_handle :: "32 word"
  fbo_cookie :: "64 word"

record parcel =
  p_items :: "parcel_item list"
  p_objects :: "flat_binder_object list"

text \<open>
  Modelled from the spec: the class Parcel of \<^verbatim>\<open>binder/cParcel.h\<close> is not part of the
  sources. A parcel is the sequence of the values written to it; the writers append one value,
  a null string being \<^term>\<open>String16 None\<close>. A reply parcel carries the capability references
  embedded in the reply, and \<^verbatim>\<open>readObject\<close> yields the first of them, or NULL
  (\<^term>\<open>None\<close>) when the reply carries none.
\<close>

definition new_Parcel :: parcel where
  "new_Parcel = \<lparr>p_items = [], p_objects = []\<rparr>"

definition writeInt32 :: "int \<Rightarrow> parcel \<Rightarrow> parcel" where
  "writeInt32 v out = out\<lparr>p_items := p_items out @ [Int32 v]\<rparr>"

definition writeString16 :: "string option \<Rightarrow> parcel \<Rightarrow> parcel" where
  "writeString16 v out = out\<lparr>p_items := p_items out @ [String16 v]\<rparr>"

definition writeInterfaceToken :: "string \<Rightarrow> parcel \<Rightarrow> parcel" where
  "writeInterfaceToken v out = out\<lparr>p_items := p_items out @ [InterfaceToken v]\<rparr>"

definition writeNullBinder :: "parcel \<Rightarrow> parcel" where
  "writeNullBinder out = out\<lparr>p_items := p_items out @ [NullBinder]\<rparr>"

definition readObject :: "parcel \<Rightarrow> bool \<Rightarrow> flat_binder_object option" where
  "readObject reply nullMetaData = (case p_objects reply of [] \<Rightarrow> None | flat # _ \<Rightarrow> Some flat)"

text \<open>\<^verbatim>\<open>writeIntent\<close>, lines 75--90.\<close>

definition writeIntent :: "parcel \<Rightarrow> string \<Rightarrow> string \<Rightarrow> parcel" where
  "writeIntent out packageName className =
     (writeInt32 (- 1)
     (writeInt32 (- 2)
     (writeInt32 0
     (writeInt32 0
     (writeInt32 0
     (writeInt32 0
     (writeString16 (Some className)
     (writeString16 (Some packageName)
     (writeString16 None
     (writeInt32 0
     (writeString16 None
     (writeString16 None
     (writeInt32 0
     (writeString16 None out))))))))))))))"

text \<open>\<^verbatim>\<open>writeStartServiceParcel\<close>, lines 104--134.\<close>

definition writeStartServiceParcel :: "parcel \<Rightarrow> string \<Rightarrow> string \<Rightarrow> int \<Rightarrow> parcel" where
  "writeStartServiceParcel out packageName className sdk_version =
     (let out1 = writeNullBinder (writeInterfaceToken ''android.app.IActivityManager'' out) in
      if sdk_version \<ge> 26 then
        writeInt32 0
        (writeString16 (Some packageName)
        (writeInt32 0
        (writeString16 None
        (writeIntent (writeInt32 1 out1) packageName className))))
      else if sdk_version \<ge> 23 then
        writeInt32 0
        (writeString16 (Some packageName)
        (writeString16 None
        (writeIntent (writeInt32 1 out1) packageName className)))
      else
        writeInt32 0
        (writeString16 None
        (writeIntent (writeInt32 1 out1) packageName className)))"

text \<open>\<^verbatim>\<open>getStartServiceTransactionCode\<close>, lines 288--300.\<close>

definition getStartServiceTransactionCode :: "int \<Rightarrow> 32 word" where
  "getStartServiceTransactionCode sdkVersion =
     (if sdkVersion = 26 then 26
      else if sdkVersion = 27 then 26
      else if sdkVersion = 28 then 30
      else if sdkVersion = 29 then 24
      else 34)"

subsection \<open>The process, the file system and the locks\<close>

text \<open>
  The trace records every system call of the process in the order of the program:
  \<^item> \<open>Open p fd\<close>: \<^verbatim>\<open>open(p, O_RDONLY | O_LARGEFILE)\<close> returned \<open>fd\<close> (\<open>-1\<close> on failure);
  \<^item> \<open>Creat p fd\<close>: \<^verbatim>\<open>open(p, O_CREAT, S_IRUSR | S_IWUSR)\<close> returned \<open>fd\<close>;
  \<^item> \<open>Fopen p ok\<close>: \<^verbatim>\<open>fopen(p, "ab+")\<close>, closed again when it succeeded;
  \<^item> \<open>FlockNB fd ok\<close>: \<^verbatim>\<open>flock(fd, LOCK_EX | LOCK_NB)\<close>, \<open>ok\<close> when it returned 0;
  \<^item> \<open>FlockEX fd ok\<close>: the blocking \<^verbatim>\<open>flock(fd, LOCK_EX)\<close> returned;
  \<^item> \<open>Usleep n\<close>, \<open>Remove p\<close>, \<open>Killpg pgrp sig\<close>, \<open>Fork r\<close>, \<open>Waitpid p\<close>;
  \<^item> \<open>OpenDriver fd\<close>, \<open>InitProcessState fd\<close>, \<open>SetProcessName n\<close>;
  \<^item> \<open>Transact handle code data reply flags fd\<close>: one call of \<^verbatim>\<open>write_transact\<close>, where
    \<open>reply\<close> says whether a reply parcel was passed (\<open>False\<close> for NULL).
  Calls that change nothing and cannot fail (\<^verbatim>\<open>getpid\<close>, the log output, the
  conversion of the strings of the caller) are not recorded.
\<close>

datatype event =
    Open path int
  | Creat path int
  | Fopen path bool
  | FlockNB int bool
  | FlockEX int bool
  | Usleep nat
  | Remove path
  | Killpg int int
  | Fork int
  | Waitpid int
  | OpenDriver int
  | InitProcessState int
  | SetProcessName string
  | Transact "32 word" "32 word" parcel bool "32 word" int

text \<open>
  The state of the process and of the part of the system it can see.
  \<^item> \<open>files\<close>: the paths that exist; \<open>nocreate\<close>: the paths at which creating a file fails.
  \<^item> \<open>foreign\<close>: the paths whose advisory lock is held by another process;
    \<open>mine\<close>: the locks of this process, each with the descriptor that holds it (a
    \<^verbatim>\<open>flock\<close> lock belongs to the open file description, so a second descriptor of the
    same process conflicts with the first).
  \<^item> \<open>fdtab\<close>, \<open>next_fd\<close>: the open descriptors of the process and the number of the next
    one (descriptors are not negative). The code never closes one
    and never calls \<^verbatim>\<open>flock(fd, LOCK_UN)\<close>, so no lock of the process is ever released
    while it runs.
  \<^item> \<open>pid\<close>, \<open>pgid\<close>: the process id and the process group of the process.
  \<^item> \<open>driver\<close>: what \<^verbatim>\<open>open_driver\<close> returns; \<open>driver_reply\<close>: the status and the embedded
    objects of the reply that the driver gives to a transaction.
\<close>

record state =
  trace :: "event list"
  clock :: nat
  files :: "path set"
  nocreate :: "path set"
  foreign :: "path set"
  mine :: "path \<rightharpoonup> int"
  fdtab :: "int \<rightharpoonup> path"
  next_fd :: nat
  pid :: int
  pgid :: int
  driver :: int
  driver_reply :: "32 word \<Rightarrow> 32 word \<Rightarrow> parcel \<Rightarrow> int \<times> flat_binder_object list"

text \<open>
  The environment: what the other processes do to the files and to their own locks, as a
  function of the time. It runs once before every system call of the process.
\<close>

type_synonym env = "nat \<Rightarrow> path set \<times> path set \<Rightarrow> path set \<times> path set"

definition tick :: "env \<Rightarrow> state \<Rightarrow> state" where
  "tick env s =
     s\<lparr>files := fst (env (clock s) (files s, foreign s)),
       foreign := snd (env (clock s) (files s, foreign s)),
       clock := Suc (clock s)\<rparr>"

definition emit :: "event \<Rightarrow> state \<Rightarrow> state" where
  "emit e s = s\<lparr>trace := trace s @ [e]\<rparr>"

text \<open>How a function call of the process ends.\<close>

datatype status =
    Returned
  | Blocked
  | Killed
  | Exited int

subsection \<open>System calls\<close>

definition new_fd :: "path \<Rightarrow> state \<Rightarrow> state" where
  "new_fd p s = s\<lparr>fdtab := (fdtab s)(int (next_fd s) \<mapsto> p), next_fd := Suc (next_fd s)\<rparr>"

definition sys_open_rdonly :: "env \<Rightarrow> path \<Rightarrow> state \<Rightarrow> int \<times> state" where
  "sys_open_rdonly env p s0 =
     (let s = tick env s0 in
      if p \<in> files s then (int (next_fd s), emit (Open p (int (next_fd s))) (new_fd p s))
      else (- 1, emit (Open p (- 1)) s))"

definition sys_open_creat :: "env \<Rightarrow> path \<Rightarrow> state \<Rightarrow> int \<times> state" where
  "sys_open_creat env p s0 =
     (let s = tick env s0 in
      if p \<in> files s then (int (next_fd s), emit (Creat p (int (next_fd s))) (new_fd p s))
      else if p \<in> nocreate s then (- 1, emit (Creat p (- 1)) s)
      else (int (next_fd s),
            emit (Creat p (int (next_fd s))) (new_fd p (s\<lparr>files := insert p (files s)\<rparr>))))"

definition sys_fopen_ab :: "env \<Rightarrow> path \<Rightarrow> state \<Rightarrow> bool \<times> state" where
  "sys_fopen_ab env p s0 =
     (let s = tick env s0 in
      if p \<in> files s then (True, emit (Fopen p True) s)
      else if p \<in> nocreate s then (False, emit (Fopen p False) s)
      else (True, emit (Fopen p True) (s\<lparr>files := insert p (files s)\<rparr>)))"

definition sys_flock_nb :: "env \<Rightarrow> int \<Rightarrow> state \<Rightarrow> int \<times> state" where
  "sys_flock_nb env fd s0 =
     (let s = tick env s0 in
      case fdtab s fd of
        None \<Rightarrow> (- 1, emit (FlockNB fd False) s)
      | Some p \<Rightarrow>
          (case mine s p of
             Some fd' \<Rightarrow>
               if fd' = fd then (0, emit (FlockNB fd True) s)
               else (- 1, emit (FlockNB fd False) s)
           | None \<Rightarrow>
               if p \<in> foreign s then (- 1, emit (FlockNB fd False) s)
               else (0, emit (FlockNB fd True) (s\<lparr>mine := (mine s)(p \<mapsto> fd)\<rparr>))))"

text \<open>
  The blocking \<^verbatim>\<open>flock(fd, LOCK_EX)\<close> waits while the lock is held through another open
  file description. The first argument bounds the time that is followed: \<^term>\<open>None\<close> means
  that the call has not returned within it.
\<close>

fun sys_flock_ex :: "nat \<Rightarrow> env \<Rightarrow> int \<Rightarrow> state \<Rightarrow> int option \<times> state" where
  "sys_flock_ex 0 env fd s0 = (None, s0)"
| "sys_flock_ex (Suc n) env fd s0 =
     (let s = tick env s0 in
      case fdtab s fd of
        None \<Rightarrow> (Some (- 1), emit (FlockEX fd False) s)
      | Some p \<Rightarrow>
          (case mine s p of
             Some fd' \<Rightarrow>
               if fd' = fd then (Some 0, emit (FlockEX fd True) s)
               else sys_flock_ex n env fd s
           | None \<Rightarrow>
               if p \<in> foreign s then sys_flock_ex n env fd s
               else (Some 0, emit (FlockEX fd True) (s\<lparr>mine := (mine s)(p \<mapsto> fd)\<rparr>))))"

definition sys_usleep :: "env \<Rightarrow> nat \<Rightarrow> state \<Rightarrow> state" where
  "sys_usleep env n s0 = emit (Usleep n) (tick env s0)"

definition sys_remove :: "env \<Rightarrow> path \<Rightarrow> state \<Rightarrow> state" where
  "sys_remove env p s0 = (let s = tick env s0 in emit (Remove p) (s\<lparr>files := files s - {p}\<rparr>))"

definition sys_getpid :: "state \<Rightarrow> int" where
  "sys_getpid s = pid s"

definition SIGTERM :: int where
  "SIGTERM = 15"

text \<open>
  \<^verbatim>\<open>killpg(pgrp, SIGTERM)\<close> reaches the caller itself when \<open>pgrp\<close> is its own process
  group; the signal is not caught, so the caller ends there.
\<close>

definition sys_killpg :: "int \<Rightarrow> int \<Rightarrow> state \<Rightarrow> status \<times> state" where
  "sys_killpg pgrp sig s =
     (if pgrp = pgid s then (Killed, emit (Killpg pgrp sig) s)
      else (Returned, emit (Killpg pgrp sig) s))"

definition sys_waitpid :: "env \<Rightarrow> int \<Rightarrow> state \<Rightarrow> state" where
  "sys_waitpid env p s0 = emit (Waitpid p) (tick env s0)"

subsection \<open>The transport\<close>

text \<open>
  Modelled from the spec: \<^verbatim>\<open>open_driver\<close>, \<^verbatim>\<open>initProcessState\<close> and
  \<^verbatim>\<open>write_transact\<close> are declared in \<^verbatim>\<open>binder/data_transact.h\<close> and their bodies are
  not part of the sources. \<open>open_driver\<close> gives the descriptor of the transport device;
  \<open>write_transact\<close> submits one transaction and returns its status, filling the reply parcel
  (when there is one) with what the driver answers. A call with the oneway flag and no reply
  parcel does not wait for an answer.
\<close>

definition TF_ONE_WAY :: "32 word" where
  "TF_ONE_WAY = 1"

definition open_driver :: "state \<Rightarrow> int \<times> state" where
  "open_driver s = (driver s, emit (OpenDriver (driver s)) s)"

definition initProcessState :: "int \<Rightarrow> state \<Rightarrow> state" where
  "initProcessState mDriverFD s = emit (InitProcessState mDriverFD) s"

definition write_transact ::
  "env \<Rightarrow> 32 word \<Rightarrow> 32 word \<Rightarrow> parcel \<Rightarrow> parcel option \<Rightarrow> 32 word \<Rightarrow> int \<Rightarrow> state
     \<Rightarrow> int \<times> parcel option \<times> state" where
  "write_transact env handle code data reply flags driverFD s0 =
     (let s = tick env s0;
          answer = driver_reply s handle code data
      in (fst answer,
          map_option (\<lambda>r. r\<lparr>p_objects := snd answer\<rparr>) reply,
          emit (Transact handle code data (reply \<noteq> None) flags driverFD) s))"

definition CHECK_SERVICE_TRANSACTION :: "32 word" where
  "CHECK_SERVICE_TRANSACTION = 1"

text \<open>\<^verbatim>\<open>getServiceHandle\<close>, lines 152--176. The status of the transaction is not looked at.\<close>

definition getServiceHandle :: "env \<Rightarrow> string \<Rightarrow> int \<Rightarrow> state \<Rightarrow> 32 word \<times> state" where
  "getServiceHandle env serviceName driverFD s0 =
     (let data = writeString16 (Some serviceName)
                   (writeInterfaceToken ''android.os.IServiceManager'' new_Parcel);
          (status, reply, s) =
             write_transact env 0 CHECK_SERVICE_TRANSACTION data (Some new_Parcel) 0 driverFD s0;
          flat = (case reply of None \<Rightarrow> None | Some r \<Rightarrow> readObject r False)
      in case flat of
           Some f \<Rightarrow> (fbo_handle f, s)
         | None \<Rightarrow> (0, s))"

subsection \<open>File locks\<close>

text \<open>\<^verbatim>\<open>createFileIfNotExist\<close>, lines 183--188.\<close>

definition createFileIfNotExist :: "env \<Rightarrow> path \<Rightarrow> state \<Rightarrow> state" where
  "createFileIfNotExist env p s = snd (sys_fopen_ab env p s)"

text \<open>
  The two calls of \<^verbatim>\<open>open\<close> that start \<^verbatim>\<open>lockFile\<close>, \<^verbatim>\<open>waitForFileLock\<close> and
  \<^verbatim>\<open>notifyAndWaitFor\<close>: read-only first, and with \<^verbatim>\<open>O_CREAT\<close> when that gave \<open>-1\<close>.
\<close>

definition open_or_create :: "env \<Rightarrow> path \<Rightarrow> state \<Rightarrow> int \<times> state" where
  "open_or_create env p s0 =
     (let (fd, s1) = sys_open_rdonly env p s0 in
      if fd = - 1 then sys_open_creat env p s1 else (fd, s1))"

text \<open>\<^verbatim>\<open>lockFile\<close>, lines 200--223: 1 when the lock was taken, 0 otherwise.\<close>

definition lockFile :: "env \<Rightarrow> path \<Rightarrow> state \<Rightarrow> int \<times> state" where
  "lockFile env lockFilePath s0 =
     (let (fd, s1) = open_or_create env lockFilePath s0 in
      if fd = - 1 then (0, s1)
      else
        let (result, s2) = sys_flock_nb env fd s1 in
        if result = - 1 then (0, s2) else (1, s2))"

text \<open>
  The loop of \<^verbatim>\<open>waitForFileLock\<close>, lines 241--243. The first argument bounds the number
  of iterations that are followed; with none left the loop is still running
  (\<^term>\<open>Blocked\<close>).
\<close>

fun waitForFileLock_loop :: "nat \<Rightarrow> env \<Rightarrow> int \<Rightarrow> state \<Rightarrow> status \<times> state" where
  "waitForFileLock_loop 0 env fd s0 = (Blocked, s0)"
| "waitForFileLock_loop (Suc n) env fd s0 =
     (let (r, s1) = sys_flock_nb env fd s0 in
      if r \<noteq> - 1 then waitForFileLock_loop n env fd (sys_usleep env 1000 s1)
      else (Returned, s1))"

text \<open>
  \<^verbatim>\<open>waitForFileLock\<close>, lines 234--250. The result is \<^term>\<open>None\<close> when the call has not
  returned within the bound.
\<close>

definition waitForFileLock :: "nat \<Rightarrow> env \<Rightarrow> path \<Rightarrow> state \<Rightarrow> bool option \<times> state" where
  "waitForFileLock fuel env lockFilePath s0 =
     (let (fd, s1) = open_or_create env lockFilePath s0 in
      case waitForFileLock_loop fuel env fd s1 of
        (Returned, s2) \<Rightarrow>
          (case sys_flock_ex fuel env fd s2 of
             (Some result, s3) \<Rightarrow> (Some (result \<noteq> - 1), s3)
           | (None, s3) \<Rightarrow> (None, s3))
      | (_, s2) \<Rightarrow> (None, s2))"

text \<open>The polling loop of \<^verbatim>\<open>notifyAndWaitFor\<close>, lines 268--270.\<close>

fun notifyAndWaitFor_loop :: "nat \<Rightarrow> env \<Rightarrow> path \<Rightarrow> state \<Rightarrow> status \<times> state" where
  "notifyAndWaitFor_loop 0 env observerDaemonPath s0 = (Blocked, s0)"
| "notifyAndWaitFor_loop (Suc n) env observerDaemonPath s0 =
     (let (fd, s1) = sys_open_rdonly env observerDaemonPath s0 in
      if fd = - 1 then notifyAndWaitFor_loop n env observerDaemonPath (sys_usleep env 1000 s1)
      else (Returned, s1))"

text \<open>\<^verbatim>\<open>notifyAndWaitFor\<close>, lines 260--275.\<close>

definition notifyAndWaitFor :: "nat \<Rightarrow> env \<Rightarrow> path \<Rightarrow> path \<Rightarrow> state \<Rightarrow> status \<times> state" where
  "notifyAndWaitFor fuel env observerSelfPath observerDaemonPath s0 =
     (let (fd, s1) = open_or_create env observerSelfPath s0 in
      case notifyAndWaitFor_loop fuel env observerDaemonPath s1 of
        (Returned, s2) \<Rightarrow> (Returned, sys_remove env observerDaemonPath s2)
      | (st, s2) \<Rightarrow> (st, s2))"

subsection \<open>The daemon\<close>

text \<open>
  The first loop of \<^verbatim>\<open>doDaemon\<close>, lines 323--329. The argument \<open>n\<close> is the number of
  attempts that are left, \<open>5 - tryCount\<close>; the result is the last value of \<open>lockStatus\<close>.
\<close>

fun doDaemon_lockSelf :: "nat \<Rightarrow> env \<Rightarrow> path \<Rightarrow> state \<Rightarrow> int \<times> state" where
  "doDaemon_lockSelf 0 env indicatorSelfPath s0 = (0, s0)"
| "doDaemon_lockSelf (Suc n) env indicatorSelfPath s0 =
     (let (lockStatus, s1) = lockFile env indicatorSelfPath s0 in
      if lockStatus = 0 then doDaemon_lockSelf n env indicatorSelfPath (sys_usleep env 10000 s1)
      else (lockStatus, s1))"

text \<open>\<^verbatim>\<open>doDaemon\<close>, lines 313--374.\<close>

definition doDaemon ::
  "nat \<Rightarrow> env \<Rightarrow> path \<Rightarrow> path \<Rightarrow> path \<Rightarrow> path \<Rightarrow> string \<Rightarrow> string \<Rightarrow> int \<Rightarrow> 32 word
     \<Rightarrow> state \<Rightarrow> status \<times> state" where
  "doDaemon fuel env indicatorSelfPath indicatorDaemonPath observerSelfPath observerDaemonPath
       packageName serviceName sdkVersion transactCode s0 =
     (let (lockStatus, s1) = doDaemon_lockSelf 5 env indicatorSelfPath s0 in
      if lockStatus = 0 then (Returned, s1)
      else
        case notifyAndWaitFor fuel env observerSelfPath observerDaemonPath s1 of
          (Returned, s2) \<Rightarrow>
            (let (driverFD, s3) = open_driver s2;
                 s4 = initProcessState driverFD s3;
                 (amsHandle, s5) = getServiceHandle env ''activity'' driverFD s4;
                 data = writeStartServiceParcel new_Parcel packageName serviceName sdkVersion;
                 (lockStatus, s6) = lockFile env indicatorDaemonPath s5
             in
               if lockStatus \<noteq> 0 then
                 let (status, reply, s7) =
                       write_transact env amsHandle transactCode data None 1 driverFD s6;
                     s8 = sys_remove env observerSelfPath s7;
                     pid = sys_getpid s8
                 in if pid > 0 then sys_killpg pid SIGTERM s8 else (Returned, s8)
               else (Returned, s6))
        | (st, s2) \<Rightarrow> (st, s2))"

subsection \<open>The entry points\<close>

definition setProcessName :: "string \<Rightarrow> state \<Rightarrow> state" where
  "setProcessName name s = emit (SetProcessName name) s"

definition Java_com_service_framework_native_FwNative_lockFile :: "env \<Rightarrow> path \<Rightarrow> state \<Rightarrow> state" where
  "Java_com_service_framework_native_FwNative_lockFile env lockFilePath s =
     snd (lockFile env lockFilePath s)"

definition Java_com_service_framework_native_FwNative_waitFileLock ::
  "nat \<Rightarrow> env \<Rightarrow> path \<Rightarrow> state \<Rightarrow> status \<times> state" where
  "Java_com_service_framework_native_FwNative_waitFileLock fuel env lockFilePath s =
     (case waitForFileLock fuel env lockFilePath s of
        (Some r, s1) \<Rightarrow> (Returned, s1)
      | (None, s1) \<Rightarrow> (Blocked, s1))"

text \<open>
  The paths of the detached daemon, lines 493--502: \<^verbatim>\<open>snprintf(buf, 256, "%s-c", p)\<close>
  keeps at most 255 characters.
\<close>

definition child_path :: "path \<Rightarrow> path" where
  "child_path p = take 255 (p @ ''-c'')"

text \<open>
  What the original process does between the first \<^verbatim>\<open>fork\<close> and its
  \<^verbatim>\<open>doDaemon\<close>, lines 517--524: it waits for the middle process.
\<close>

definition original_init :: "env \<Rightarrow> int \<Rightarrow> state \<Rightarrow> state" where
  "original_init env pid1 s0 = sys_waitpid env pid1 s0"

text \<open>
  The part of the entry point that the original process runs after the first
  \<^verbatim>\<open>fork\<close>, lines 517--537; the detached daemon reaches it too when its own
  \<^verbatim>\<open>doDaemon\<close> returns, since the branch of the child does not end with a return.
\<close>

definition parent_section ::
  "nat \<Rightarrow> env \<Rightarrow> int \<Rightarrow> path \<Rightarrow> path \<Rightarrow> path \<Rightarrow> path \<Rightarrow> string \<Rightarrow> string \<Rightarrow> int \<Rightarrow> 32 word
     \<Rightarrow> state \<Rightarrow> status \<times> state" where
  "parent_section fuel env pid1 indicatorSelf indicatorDaemon observerSelf observerDaemon
       pkgName svcName sdkVersion transactCode s0 =
     doDaemon fuel env indicatorSelf indicatorDaemon observerSelf observerDaemon
       pkgName svcName sdkVersion transactCode (original_init env pid1 s0)"

text \<open>
  The part of the entry point that only the detached daemon runs before its
  \<^verbatim>\<open>doDaemon\<close>, lines 489--509.
\<close>

definition daemon_init :: "env \<Rightarrow> path \<Rightarrow> path \<Rightarrow> state \<Rightarrow> state" where
  "daemon_init env indicatorSelf indicatorDaemon s0 =
     (let s1 = createFileIfNotExist env (child_path indicatorSelf) s0;
          s2 = createFileIfNotExist env (child_path indicatorDaemon) s1
      in setProcessName ''fw_daemon'' s2)"

text \<open>
  \<^verbatim>\<open>Java_com_service_framework_native_FwNative_startForceStopDaemon\<close>, lines 437--538, as
  one process runs it. The four paths are \<^term>\<open>None\<close> when the caller passed NULL.
  \<open>fork1\<close> and \<open>fork2\<close> are what the two calls of \<^verbatim>\<open>fork\<close> return in the process that is
  followed: the original process sees a positive \<open>fork1\<close>, the middle process \<open>fork1 = 0\<close>
  and a positive \<open>fork2\<close>, the detached daemon \<open>fork1 = 0\<close> and \<open>fork2 = 0\<close>.
\<close>

definition Java_com_service_framework_native_FwNative_startForceStopDaemon ::
  "nat \<Rightarrow> env \<Rightarrow> int \<Rightarrow> int \<Rightarrow> path option \<Rightarrow> path option \<Rightarrow> path option \<Rightarrow> path option
     \<Rightarrow> string \<Rightarrow> string \<Rightarrow> int \<Rightarrow> state \<Rightarrow> status \<times> state" where
  "Java_com_service_framework_native_FwNative_startForceStopDaemon fuel env fork1 fork2
       indicatorSelfPath indicatorDaemonPath observerSelfPath observerDaemonPath
       packageName serviceName sdkVersion s0 =
     (case (indicatorSelfPath, indicatorDaemonPath, observerSelfPath, observerDaemonPath) of
        (Some indicatorSelf, Some indicatorDaemon, Some observerSelf, Some observerDaemon) \<Rightarrow>
          (let transactCode = getStartServiceTransactionCode sdkVersion;
               s1 = emit (Fork fork1) s0
           in
             if fork1 < 0 then (Returned, s1)
             else if fork1 = 0 then
               (let s2 = emit (Fork fork2) s1 in
                if fork2 < 0 then (Exited (- 1), s2)
                else if fork2 > 0 then (Exited 0, s2)
                else
                  case doDaemon fuel env
                         (child_path indicatorSelf) (child_path indicatorDaemon)
                         (child_path observerSelf) (child_path observerDaemon)
                         packageName serviceName sdkVersion transactCode
                         (daemon_init env indicatorSelf indicatorDaemon s2) of
                    (Returned, s3) \<Rightarrow>
                      parent_section fuel env fork1 indicatorSelf indicatorDaemon
                        observerSelf observerDaemon packageName serviceName sdkVersion
                        transactCode s3
                  | (st, s3) \<Rightarrow> (st, s3))
             else
               parent_section fuel env fork1 indicatorSelf indicatorDaemon
                 observerSelf observerDaemon packageName serviceName sdkVersion transactCode s1)
      | _ \<Rightarrow> (Returned, s0))"

subsection \<open>Notions used in the statements\<close>

text \<open>The request that \<^verbatim>\<open>getServiceHandle\<close> builds, lines 157--158.\<close>

definition checkService_request :: "string \<Rightarrow> parcel" where
  "checkService_request serviceName =
     writeString16 (Some serviceName)
       (writeInterfaceToken ''android.os.IServiceManager'' new_Parcel)"

text \<open>The capability references embedded in the reply of the registry to that request.\<close>

definition registry_reply :: "env \<Rightarrow> string \<Rightarrow> state \<Rightarrow> flat_binder_object list" where
  "registry_reply env serviceName s =
     snd (driver_reply (tick env s) 0 CHECK_SERVICE_TRANSACTION (checkService_request serviceName))"

text \<open>The process keeps its identity and its transport device.\<close>

definition same_process :: "state \<Rightarrow> state \<Rightarrow> bool" where
  "same_process s s' \<longleftrightarrow> pid s' = pid s \<and> pgid s' = pgid s \<and> driver s' = driver s"

text \<open>A transaction submitted with the oneway flag.\<close>

fun is_oneway :: "event \<Rightarrow> bool" where
  "is_oneway (Transact handle code data reply flags fd) = (flags = TF_ONE_WAY)"
| "is_oneway _ = False"

text \<open>An environment in which the other processes change nothing.\<close>

definition quiet :: env where
  "quiet t x = x"

text \<open>
  A process that has not done anything yet, on an empty file system, with a registry that
  knows no service.
\<close>

definition boot :: state where
  "boot = \<lparr>trace = [], clock = 0, files = {}, nocreate = {}, foreign = {},
     mine = Map.empty, fdtab = Map.empty, next_fd = 3, pid = 100, pgid = 100, driver = 9,
     driver_reply = (\<lambda>h c d. (0, []))\<rparr>"

text \<open>
  The same process when its sibling lives: the sibling holds the lock of its indicator file
  \<open>b\<close> and has announced itself with its observer file \<open>ob\<close>.
\<close>

definition sibling_alive :: state where
  "sibling_alive = boot\<lparr>files := {''a'', ''b'', ''ob''}, foreign := {''b''}\<rparr>"

text \<open>The same process after the death of its sibling: nobody holds the lock of \<open>b\<close>.\<close>

definition sibling_dead :: state where
  "sibling_dead = boot\<lparr>files := {''a'', ''b'', ''ob''}\<rparr>"

text \<open>
  The events of the two calls of \<^verbatim>\<open>open\<close> on \<open>p\<close> that gave the descriptor \<open>fd\<close>:
  the read-only one when it succeeded, and the creating one after it otherwise.
\<close>

definition opened_as :: "path \<Rightarrow> int \<Rightarrow> event list \<Rightarrow> bool" where
  "opened_as p fd evs \<longleftrightarrow>
     (fd \<noteq> - 1 \<and> evs = [Open p fd]) \<or> evs = [Open p (- 1), Creat p fd]"

text \<open>
  The events of one call of \<^verbatim>\<open>lockFile\<close> on \<open>p\<close> with the result \<open>ok\<close>: the file is
  opened and the lock is asked for without blocking; when the file cannot be opened there is
  no lock request and the call fails.
\<close>

definition lock_attempt :: "path \<Rightarrow> bool \<Rightarrow> event list \<Rightarrow> bool" where
  "lock_attempt p ok evs \<longleftrightarrow>
     (\<exists>fd pre. opened_as p fd pre \<and>
        (if fd = - 1 then \<not> ok \<and> evs = pre else evs = pre @ [FlockNB fd ok]))"

text \<open>A failed attempt of the LockingSelf step, with the sleep of 10 ms that follows it.\<close>

definition failed_attempt :: "path \<Rightarrow> event list \<Rightarrow> bool" where
  "failed_attempt p evs \<longleftrightarrow> (\<exists>pre. lock_attempt p False pre \<and> evs = pre @ [Usleep 10000])"



text \<open>The oneway transactions that the process has submitted so far.\<close>

definition submitted :: "state \<Rightarrow> event list" where
  "submitted s = filter is_oneway (trace s)"

text \<open>What \<^verbatim>\<open>doDaemon\<close> does once the barrier has been passed, lines 339--373.\<close>

definition monitoring ::
  "env \<Rightarrow> path \<Rightarrow> path \<Rightarrow> string \<Rightarrow> string \<Rightarrow> int \<Rightarrow> 32 word \<Rightarrow> state \<Rightarrow> status \<times> state" where
  "monitoring env indicatorDaemonPath observerSelfPath packageName serviceName sdkVersion
       transactCode s2 =
     (let (driverFD, s3) = open_driver s2;
          s4 = initProcessState driverFD s3;
          (amsHandle, s5) = getServiceHandle env ''activity'' driverFD s4;
          data = writeStartServiceParcel new_Parcel packageName serviceName sdkVersion;
          (lockStatus, s6) = lockFile env indicatorDaemonPath s5
      in
        if lockStatus \<noteq> 0 then
          let (status, reply, s7) =
                write_transact env amsHandle transactCode data None 1 driverFD s6;
              s8 = sys_remove env observerSelfPath s7;
              pid = sys_getpid s8
          in if pid > 0 then sys_killpg pid SIGTERM s8 else (Returned, s8)
        else (Returned, s6))"




text \<open>
  The detached daemon after the death of its sibling: it has the process id 101 and is a
  member of the process group 100 of the process that forked it (\<^verbatim>\<open>fork\<close> keeps the
  group, and the entry point calls neither \<^verbatim>\<open>setsid\<close> nor \<^verbatim>\<open>setpgid\<close> after
  it). It works on the paths with the suffix \<open>-c\<close>; the sibling had announced itself.
\<close>

definition detached_after_death :: state where
  "detached_after_death =
     boot\<lparr>pid := 101, pgid := 100, files := {''a-c'', ''b-c'', ''ob-c''}\<rparr>"

text \<open>
  The detached daemon at the start of the entry point, when another process holds the lock
  of its own indicator file \<open>a-c\<close> for ever. The files of the original paths are those of
  \<^term>\<open>sibling_dead\<close>.
\<close>

definition detached_locked_out :: state where
  "detached_locked_out =
     boot\<lparr>pid := 101, pgid := 100, files := {''a-c'', ''a'', ''b'', ''ob''},
       foreign := {''a-c''}\<rparr>"

section \<open>Properties\<close>

subsection \<open>Evaluation\<close>

lemma five: "(5::nat) = Suc (Suc (Suc (Suc (Suc 0))))"
  by simp

lemmas sys_defs = sys_open_rdonly_def sys_open_creat_def sys_fopen_ab_def sys_flock_nb_def
  sys_usleep_def sys_remove_def sys_getpid_def sys_killpg_def sys_waitpid_def
  tick_def emit_def new_fd_def open_driver_def initProcessState_def write_transact_def

lemmas eval_defs = five lockFile_def open_or_create_def sys_defs boot_def
  quiet_def Let_def notifyAndWaitFor_def getServiceHandle_def readObject_def new_Parcel_def
  writeString16_def writeInterfaceToken_def CHECK_SERVICE_TRANSACTION_def

subsection \<open>What a call leaves unchanged\<close>

lemma same_process_refl: "same_process s s"
  by (simp add: same_process_def)

lemma same_process_trans: "same_process s s' \<Longrightarrow> same_process s' s'' \<Longrightarrow> same_process s s''"
  by (simp add: same_process_def)

lemma same_process_usleep: "same_process s (sys_usleep env n s)"
  by (simp add: same_process_def sys_defs)

lemma same_process_remove: "same_process s (sys_remove env p s)"
  by (simp add: same_process_def sys_defs Let_def)

lemma same_process_open: "same_process s (snd (sys_open_rdonly env p s))"
  by (simp add: same_process_def sys_defs Let_def)

lemma same_process_flock_nb: "same_process s (snd (sys_flock_nb env fd s))"
  by (simp add: same_process_def sys_defs Let_def split: option.splits)

lemma same_process_open_or_create: "same_process s (snd (open_or_create env p s))"
  by (simp add: same_process_def open_or_create_def sys_defs Let_def split: prod.splits)

lemma same_process_lockFile: "same_process s (snd (lockFile env p s))"
proof (cases "open_or_create env p s")
  case (Pair fd s1)
  have a: "same_process s s1"
    using same_process_open_or_create [of s env p] Pair by simp
  have b: "same_process s1 (snd (sys_flock_nb env fd s1))"
    by (rule same_process_flock_nb)
  show ?thesis
    using Pair same_process_trans [OF a b] a
    by (auto simp: lockFile_def split: prod.splits)
qed

lemma same_process_lockSelf: "same_process s (snd (doDaemon_lockSelf n env p s))"
proof (induction n arbitrary: s)
  case 0
  show ?case by (simp add: same_process_refl)
next
  case (Suc n)
  show ?case
  proof (cases "lockFile env p s")
    case (Pair l s1)
    have a: "same_process s s1"
      using same_process_lockFile [of s env p] Pair by simp
    show ?thesis
    proof (cases "l = 0")
      case True
      have "same_process s1 (snd (doDaemon_lockSelf n env p (sys_usleep env 10000 s1)))"
        by (rule same_process_trans [OF same_process_usleep Suc.IH])
      with a Pair True show ?thesis by (simp add: same_process_def)
    next
      case False
      with a Pair show ?thesis by simp
    qed
  qed
qed

lemma same_process_poll: "same_process s (snd (notifyAndWaitFor_loop n env p s))"
proof (induction n arbitrary: s)
  case 0
  show ?case by (simp add: same_process_refl)
next
  case (Suc n)
  show ?case
  proof (cases "sys_open_rdonly env p s")
    case (Pair fd s1)
    have a: "same_process s s1"
      using same_process_open [of s env p] Pair by simp
    have "same_process s1 (snd (notifyAndWaitFor_loop n env p (sys_usleep env 1000 s1)))"
      by (rule same_process_trans [OF same_process_usleep Suc.IH])
    with a Pair show ?thesis by (simp add: same_process_def)
  qed
qed

lemma same_process_notifyAndWaitFor: "same_process s (snd (notifyAndWaitFor fuel env p q s))"
proof (cases "open_or_create env p s")
  case (Pair fd s1)
  have a: "same_process s s1"
    using same_process_open_or_create [of s env p] Pair by simp
  have b: "same_process s1 (snd (notifyAndWaitFor_loop fuel env q s1))"
    by (rule same_process_poll)
  show ?thesis
  proof (cases "notifyAndWaitFor_loop fuel env q s1")
    case (Pair st s2)
    with a b \<open>open_or_create env p s = (fd, s1)\<close> same_process_remove [of s2 env q]
    show ?thesis
      by (cases st) (simp_all add: notifyAndWaitFor_def same_process_def)
  qed
qed

lemma same_process_getServiceHandle: "same_process s (snd (getServiceHandle env n fd s))"
  by (simp add: same_process_def getServiceHandle_def sys_defs Let_def split: option.splits)

subsection \<open>The events of a call\<close>

lemma trace_open_rdonly:
  "sys_open_rdonly env p s = (fd, s') \<Longrightarrow> trace s' = trace s @ [Open p fd]"
  by (auto simp: sys_defs Let_def split: if_splits)

lemma trace_open_creat:
  "sys_open_creat env p s = (fd, s') \<Longrightarrow> trace s' = trace s @ [Creat p fd]"
  by (auto simp: sys_defs Let_def split: if_splits)

lemma trace_flock_nb:
  "sys_flock_nb env fd s = (r, s') \<Longrightarrow> trace s' = trace s @ [FlockNB fd (r \<noteq> - 1)] \<and> (r = 0 \<or> r = - 1)"
  by (auto simp: sys_defs Let_def split: if_splits option.splits)

lemma trace_usleep: "trace (sys_usleep env n s) = trace s @ [Usleep n]"
  by (simp add: sys_defs)


lemma trace_open_or_create:
  assumes "open_or_create env p s = (fd, s')"
  shows "\<exists>evs. trace s' = trace s @ evs \<and> opened_as p fd evs"
proof (cases "sys_open_rdonly env p s")
  case (Pair fd1 s1)
  note t1 = trace_open_rdonly [OF Pair]
  show ?thesis
  proof (cases "fd1 = - 1")
    case True
    with assms Pair have "sys_open_creat env p s1 = (fd, s')"
      by (simp add: open_or_create_def)
    from trace_open_creat [OF this] t1 True show ?thesis
      by (simp add: opened_as_def)
  next
    case False
    with assms Pair have "fd = fd1" "s' = s1"
      by (simp_all add: open_or_create_def)
    with t1 False show ?thesis
      by (simp add: opened_as_def)
  qed
qed


lemma trace_lockFile:
  assumes "lockFile env p s = (l, s')"
  shows "\<exists>evs. trace s' = trace s @ evs \<and> lock_attempt p (l \<noteq> 0) evs \<and> (l = 0 \<or> l = 1)"
proof (cases "open_or_create env p s")
  case (Pair fd s1)
  from trace_open_or_create [OF Pair] obtain pre
    where pre: "trace s1 = trace s @ pre" "opened_as p fd pre" by blast
  show ?thesis
  proof (cases "fd = - 1")
    case True
    with assms Pair have "l = 0" "s' = s1"
      by (simp_all add: lockFile_def)
    with pre True show ?thesis
      by (auto simp: lock_attempt_def)
  next
    case False
    obtain r s2 where fl: "sys_flock_nb env fd s1 = (r, s2)"
      by (cases "sys_flock_nb env fd s1")
    from trace_flock_nb [OF fl]
    have t2: "trace s2 = trace s1 @ [FlockNB fd (r \<noteq> - 1)]" and r: "r = 0 \<or> r = - 1"
      by simp_all
    from assms Pair False fl have res: "s' = s2" "l = (if r = - 1 then 0 else 1)"
      by (simp_all add: lockFile_def split: if_splits)
    have "lock_attempt p (l \<noteq> 0) (pre @ [FlockNB fd (r \<noteq> - 1)])"
      unfolding lock_attempt_def using pre(2) False res(2)
      by (intro exI [of _ fd] exI [of _ pre]) auto
    with t2 pre(1) res show ?thesis
      by auto
  qed
qed

lemma trace_lockSelf:
  "doDaemon_lockSelf n env p s0 = (l, s1) \<Longrightarrow>
     \<exists>fails final. trace s1 = trace s0 @ concat fails @ final \<and>
       (\<forall>a \<in> set fails. failed_attempt p a) \<and>
       (if l = 0 then final = [] \<and> length fails = n
        else lock_attempt p True final \<and> length fails < n)"
proof (induction n arbitrary: s0)
  case 0
  then show ?case
    by (intro exI [of _ "[]"]) simp
next
  case (Suc n)
  obtain l0 s' where lf: "lockFile env p s0 = (l0, s')"
    by (cases "lockFile env p s0")
  from trace_lockFile [OF lf] obtain evs
    where evs: "trace s' = trace s0 @ evs" "lock_attempt p (l0 \<noteq> 0) evs"
    by blast
  show ?case
  proof (cases "l0 = 0")
    case True
    with Suc.prems lf have rec: "doDaemon_lockSelf n env p (sys_usleep env 10000 s') = (l, s1)"
      by simp
    from Suc.IH [OF rec] obtain fails final
      where ih: "trace s1 = trace (sys_usleep env 10000 s') @ concat fails @ final"
        "\<forall>a \<in> set fails. failed_attempt p a"
        "if l = 0 then final = [] \<and> length fails = n
         else lock_attempt p True final \<and> length fails < n"
      by blast
    have first: "failed_attempt p (evs @ [Usleep 10000])"
      using evs(2) True by (auto simp: failed_attempt_def)
    have "trace s1 = trace s0 @ concat ((evs @ [Usleep 10000]) # fails) @ final"
      using ih(1) evs(1) by (simp add: trace_usleep)
    moreover have "\<forall>a \<in> set ((evs @ [Usleep 10000]) # fails). failed_attempt p a"
      using first ih(2) by simp
    moreover have "if l = 0 then final = [] \<and> length ((evs @ [Usleep 10000]) # fails) = Suc n
         else lock_attempt p True final \<and> length ((evs @ [Usleep 10000]) # fails) < Suc n"
      using ih(3) by (simp split: if_splits)
    ultimately show ?thesis
      by blast
  next
    case False
    with Suc.prems lf have "l = l0" "s1 = s'"
      by simp_all
    with evs False show ?thesis
      by (intro exI [of _ "[]"] exI [of _ evs]) simp
  qed
qed



lemma trace_createFileIfNotExist:
  "\<exists>ok. trace (createFileIfNotExist env p s) = trace s @ [Fopen p ok] \<and>
        (ok \<or> p \<in> nocreate s) \<and> (ok = (p \<in> files (createFileIfNotExist env p s))) \<and>
        nocreate (createFileIfNotExist env p s) = nocreate s"
  by (simp add: createFileIfNotExist_def sys_defs Let_def)

lemma waitFileLock_entry:
  "Java_com_service_framework_native_FwNative_waitFileLock fuel env lockFilePath s =
     (if fst (waitForFileLock fuel env lockFilePath s) = None then Blocked else Returned,
      snd (waitForFileLock fuel env lockFilePath s))"
  by (simp add: Java_com_service_framework_native_FwNative_waitFileLock_def
      split: prod.splits option.splits)

subsection \<open>The parts of the daemon\<close>

lemma doDaemon_phases:
  "doDaemon fuel env iS iD oS oD pkg svc sdk code s0 =
     (case doDaemon_lockSelf 5 env iS s0 of
        (lockStatus, s1) \<Rightarrow>
          if lockStatus = 0 then (Returned, s1)
          else (case notifyAndWaitFor fuel env oS oD s1 of
                  (Returned, s2) \<Rightarrow> monitoring env iD oS pkg svc sdk code s2
                | (st, s2) \<Rightarrow> (st, s2)))"
  by (simp add: doDaemon_def monitoring_def split: prod.splits status.splits)




lemma trigger_sequence:
  assumes lockSelf: "doDaemon_lockSelf 5 env indicatorSelfPath s0 = (lockStatus, s1)"
    and locked: "lockStatus \<noteq> 0"
    and synced: "notifyAndWaitFor fuel env observerSelfPath observerDaemonPath s1 = (Returned, s2)"
    and opened: "open_driver s2 = (driverFD, s3)"
    and resolved: "getServiceHandle env ''activity'' driverFD (initProcessState driverFD s3)
                     = (amsHandle, s5)"
    and detected: "lockFile env indicatorDaemonPath s5 = (lockStatus', s6)" "lockStatus' \<noteq> 0"
    and pid: "0 < pid s0"
  shows "\<exists>s'. doDaemon fuel env indicatorSelfPath indicatorDaemonPath observerSelfPath
              observerDaemonPath packageName serviceName sdkVersion transactCode s0 =
            (if pgid s0 = pid s0 then Killed else Returned, s') \<and>
          observerSelfPath \<notin> files s' \<and>
          trace s' = trace s6 @
            [Transact amsHandle transactCode
               (writeStartServiceParcel new_Parcel packageName serviceName sdkVersion)
               False TF_ONE_WAY driverFD,
             Remove observerSelfPath,
             Killpg (pid s0) SIGTERM]"
proof -
  have "same_process s0 s1"
    using same_process_lockSelf [of s0 5 env indicatorSelfPath] lockSelf by simp
  moreover have "same_process s1 s2"
    using same_process_notifyAndWaitFor [of s1 fuel env observerSelfPath observerDaemonPath] synced
    by simp
  moreover have "same_process s2 (initProcessState driverFD s3)"
    using opened by (auto simp: same_process_def open_driver_def initProcessState_def emit_def)
  moreover have "same_process (initProcessState driverFD s3) s5"
    using same_process_getServiceHandle [of "initProcessState driverFD s3" env "''activity''" driverFD]
      resolved by simp
  moreover have "same_process s5 s6"
    using same_process_lockFile [of s5 env indicatorDaemonPath] detected by simp
  ultimately have same: "pid s6 = pid s0" "pgid s6 = pgid s0"
    by (simp_all add: same_process_def)
  define tail where "tail =
     (let (status, reply, s7) =
            write_transact env amsHandle transactCode
              (writeStartServiceParcel new_Parcel packageName serviceName sdkVersion)
              None 1 driverFD s6;
          s8 = sys_remove env observerSelfPath s7;
          pid = sys_getpid s8
      in if pid > 0 then sys_killpg pid SIGTERM s8 else (Returned, s8))"
  have run: "doDaemon fuel env indicatorSelfPath indicatorDaemonPath observerSelfPath
      observerDaemonPath packageName serviceName sdkVersion transactCode s0 = tail"
    by (simp add: doDaemon_def lockSelf locked synced opened resolved detected tail_def)
  have "fst tail = (if pgid s0 = pid s0 then Killed else Returned)"
    using pid same by (simp add: tail_def sys_defs Let_def)
  moreover have "observerSelfPath \<notin> files (snd tail)"
    using pid same by (simp add: tail_def sys_defs Let_def)
  moreover have "trace (snd tail) = trace s6 @
            [Transact amsHandle transactCode
               (writeStartServiceParcel new_Parcel packageName serviceName sdkVersion)
               False TF_ONE_WAY driverFD,
             Remove observerSelfPath,
             Killpg (pid s0) SIGTERM]"
    using pid same by (simp add: tail_def sys_defs Let_def TF_ONE_WAY_def)
  ultimately show ?thesis
    unfolding run by (intro exI [of _ "snd tail"]) (simp add: prod_eq_iff)
qed

lemma lockingSelf_bounded_retry:
  assumes "doDaemon_lockSelf 5 env indicatorSelfPath s0 = (lockStatus, s1)"
  shows "(\<exists>fails final. trace s1 = trace s0 @ concat fails @ final \<and>
            (\<forall>a \<in> set fails. failed_attempt indicatorSelfPath a) \<and>
            (if lockStatus = 0 then final = [] \<and> length fails = 5
             else lock_attempt indicatorSelfPath True final \<and> length fails < 5)) \<and>
         (lockStatus = 0 \<longrightarrow>
            doDaemon fuel env indicatorSelfPath indicatorDaemonPath observerSelfPath
              observerDaemonPath packageName serviceName sdkVersion transactCode s0 = (Returned, s1))"
proof -
  have "lockStatus = 0 \<Longrightarrow>
            doDaemon fuel env indicatorSelfPath indicatorDaemonPath observerSelfPath
              observerDaemonPath packageName serviceName sdkVersion transactCode s0 = (Returned, s1)"
    by (simp add: doDaemon_def assms)
  with trace_lockSelf [OF assms] show ?thesis
    by blast
qed

subsection \<open>The barrier\<close>















subsection \<open>Submitted transactions\<close>

lemma submitted_open: "submitted (snd (sys_open_rdonly env p s)) = submitted s"
  by (simp add: submitted_def sys_defs Let_def)

lemma submitted_open_creat: "submitted (snd (sys_open_creat env p s)) = submitted s"
  by (simp add: submitted_def sys_defs Let_def)

lemma submitted_flock_nb: "submitted (snd (sys_flock_nb env fd s)) = submitted s"
  by (simp add: submitted_def sys_defs Let_def split: option.splits)

lemma submitted_usleep: "submitted (sys_usleep env n s) = submitted s"
  by (simp add: submitted_def sys_defs)

lemma submitted_remove: "submitted (sys_remove env p s) = submitted s"
  by (simp add: submitted_def sys_defs Let_def)

lemma submitted_open_or_create: "submitted (snd (open_or_create env p s)) = submitted s"
proof (cases "sys_open_rdonly env p s")
  case (Pair fd s1)
  with submitted_open [of env p s] submitted_open_creat [of env p s1] show ?thesis
    by (simp add: open_or_create_def)
qed

lemma submitted_lockFile: "submitted (snd (lockFile env p s)) = submitted s"
proof (cases "open_or_create env p s")
  case (Pair fd s1)
  with submitted_open_or_create [of env p s] submitted_flock_nb [of env fd s1] show ?thesis
    by (auto simp: lockFile_def split: prod.splits)
qed

lemma submitted_lockSelf: "submitted (snd (doDaemon_lockSelf n env p s)) = submitted s"
proof (induction n arbitrary: s)
  case 0
  show ?case by simp
next
  case (Suc n)
  obtain l s1 where lf: "lockFile env p s = (l, s1)"
    by (cases "lockFile env p s")
  with submitted_lockFile [of env p s] have "submitted s1 = submitted s"
    by simp
  with lf Suc.IH [of "sys_usleep env 10000 s1"] show ?case
    by (simp add: submitted_usleep)
qed

lemma submitted_poll: "submitted (snd (notifyAndWaitFor_loop n env p s)) = submitted s"
proof (induction n arbitrary: s)
  case 0
  show ?case by simp
next
  case (Suc n)
  obtain fd s1 where op: "sys_open_rdonly env p s = (fd, s1)"
    by (cases "sys_open_rdonly env p s")
  with submitted_open [of env p s] have "submitted s1 = submitted s"
    by simp
  with op Suc.IH [of "sys_usleep env 1000 s1"] show ?case
    by (simp add: submitted_usleep)
qed

lemma submitted_notifyAndWaitFor:
  "submitted (snd (notifyAndWaitFor fuel env p q s)) = submitted s"
proof -
  obtain fd s1 where oc: "open_or_create env p s = (fd, s1)"
    by (cases "open_or_create env p s")
  obtain st s2 where lp: "notifyAndWaitFor_loop fuel env q s1 = (st, s2)"
    by (cases "notifyAndWaitFor_loop fuel env q s1")
  from submitted_open_or_create [of env p s] oc have "submitted s1 = submitted s"
    by simp
  moreover from submitted_poll [of fuel env q s1] lp have "submitted s2 = submitted s1"
    by simp
  ultimately show ?thesis
    using oc lp by (cases st) (simp_all add: notifyAndWaitFor_def submitted_remove)
qed

lemma submitted_getServiceHandle:
  "submitted (snd (getServiceHandle env n fd s)) = submitted s"
  by (simp add: submitted_def getServiceHandle_def sys_defs Let_def TF_ONE_WAY_def
      split: option.splits)

lemma submitted_driver:
  "submitted (initProcessState fd (snd (open_driver s))) = submitted s"
  by (simp add: submitted_def sys_defs)

lemma trigger_submits_once:
  "length (submitted (snd
     (let (status, reply, s7) = write_transact env h c d None 1 fd s6;
          s8 = sys_remove env oS s7;
          pid = sys_getpid s8
      in if pid > 0 then sys_killpg pid SIGTERM s8 else (Returned, s8)))) = Suc (length (submitted s6))"
  by (simp add: submitted_def sys_defs Let_def TF_ONE_WAY_def)

lemma monitoring_submitted:
  "length (submitted (snd (monitoring env iD oS pkg svc sdk code s2))) \<le> Suc (length (submitted s2))"
proof -
  obtain d s3 where od: "open_driver s2 = (d, s3)"
    by (cases "open_driver s2")
  obtain h s5 where gs: "getServiceHandle env ''activity'' d (initProcessState d s3) = (h, s5)"
    by (cases "getServiceHandle env ''activity'' d (initProcessState d s3)")
  obtain l s6 where lf: "lockFile env iD s5 = (l, s6)"
    by (cases "lockFile env iD s5")
  have "submitted (initProcessState d s3) = submitted s2"
    using submitted_driver [of d s2] od by simp
  moreover have "submitted s5 = submitted (initProcessState d s3)"
    using submitted_getServiceHandle [of env "''activity''" d "initProcessState d s3"] gs by simp
  moreover have "submitted s6 = submitted s5"
    using submitted_lockFile [of env iD s5] lf by simp
  ultimately have eq: "submitted s6 = submitted s2"
    by simp
  show ?thesis
  proof (cases "l = 0")
    case True
    with od gs lf eq show ?thesis
      by (simp add: monitoring_def)
  next
    case False
    have "monitoring env iD oS pkg svc sdk code s2 =
      (let (status, reply, s7) = write_transact env h code
             (writeStartServiceParcel new_Parcel pkg svc sdk) None 1 d s6;
          s8 = sys_remove env oS s7;
          pid = sys_getpid s8
      in if pid > 0 then sys_killpg pid SIGTERM s8 else (Returned, s8))"
      using od gs lf False by (simp add: monitoring_def)
    with trigger_submits_once [of env h code "writeStartServiceParcel new_Parcel pkg svc sdk" d s6 oS] eq
    show ?thesis
      by simp
  qed
qed

subsection \<open>A lock that is held\<close>

lemma drain_stuck:
  "fdtab s fd = Some p \<Longrightarrow> mine s p = Some fd \<Longrightarrow>
     fst (waitForFileLock_loop n env fd s) = Blocked"
proof (induction n arbitrary: s)
  case 0
  show ?case by simp
next
  case (Suc n)
  have fl: "sys_flock_nb env fd s = (0, emit (FlockNB fd True) (tick env s))"
    using Suc.prems by (simp add: sys_flock_nb_def tick_def Let_def)
  have "fst (waitForFileLock_loop n env fd (sys_usleep env 1000 (emit (FlockNB fd True) (tick env s)))) = Blocked"
    using Suc.prems by (intro Suc.IH) (simp_all add: sys_defs)
  with fl show ?case
    by simp
qed

subsection \<open>Monitoring\<close>

text \<open>
  Claim C1 says that the attempt to take the lock of the sibling's indicator file in the
  Monitoring step blocks while the sibling lives. The code calls \<^verbatim>\<open>lockFile\<close> there, which
  asks for the lock with \<^verbatim>\<open>LOCK_NB\<close>. In the run below the sibling holds the lock of \<open>b\<close>
  and keeps it for ever (the environment is quiet): \<^verbatim>\<open>doDaemon\<close> returns, whatever the
  bound on the waiting is, after one failed non-blocking attempt, without having submitted the
  revival request and while the sibling still holds its lock.
\<close>

theorem C1_monitoring_returns_while_sibling_holds_lock:
  "fst (doDaemon (Suc fuel) quiet ''a'' ''b'' ''oa'' ''ob'' ''pkg'' ''svc'' 28 30 sibling_alive)
     = Returned \<and>
   ''b'' \<in> foreign (snd (doDaemon (Suc fuel) quiet ''a'' ''b'' ''oa'' ''ob'' ''pkg'' ''svc'' 28 30
              sibling_alive)) \<and>
   trace (snd (doDaemon (Suc fuel) quiet ''a'' ''b'' ''oa'' ''ob'' ''pkg'' ''svc'' 28 30
              sibling_alive)) =
     [Open ''a'' 3, FlockNB 3 True,
      Open ''oa'' (- 1), Creat ''oa'' 4, Open ''ob'' 5, Remove ''ob'',
      OpenDriver 9, InitProcessState 9,
      Transact 0 CHECK_SERVICE_TRANSACTION (checkService_request ''activity'') True 0 9,
      Open ''b'' 6, FlockNB 6 False]"
  by (simp add: doDaemon_def eval_defs sibling_alive_def checkService_request_def)

subsection \<open>The trigger\<close>

text \<open>
  Claim C2 says that the instance that has detected the death of its sibling submits the
  revival request, deletes its own observer file and then sends SIGTERM to its own process
  group. The code calls \<^verbatim>\<open>killpg(getpid(), SIGTERM)\<close> (lines 367--369, under the comment
  that the process kills itself): the group that is signalled is the one whose id is the
  process id of the caller, and that is the caller's own group only when the caller leads its
  group. In the run below the process is the detached daemon after the death of its sibling:
  its process id is 101 and its group is 100. It submits the request, with the oneway flag
  and no reply parcel, and deletes its observer file, which does not exist afterwards; then
  it signals the group 101, of which it is not a member. Its own group 100 gets no signal,
  the process lives on, and \<^verbatim>\<open>doDaemon\<close> returns.
\<close>

theorem C2_killpg_misses_own_group:
  "fst (doDaemon (Suc 0) quiet ''a-c'' ''b-c'' ''oa-c'' ''ob-c'' ''pkg'' ''svc'' 28 30
          detached_after_death) = Returned \<and>
   pid (snd (doDaemon (Suc 0) quiet ''a-c'' ''b-c'' ''oa-c'' ''ob-c'' ''pkg'' ''svc'' 28 30
          detached_after_death)) = 101 \<and>
   pgid (snd (doDaemon (Suc 0) quiet ''a-c'' ''b-c'' ''oa-c'' ''ob-c'' ''pkg'' ''svc'' 28 30
          detached_after_death)) = 100 \<and>
   ''oa-c'' \<notin> files (snd (doDaemon (Suc 0) quiet ''a-c'' ''b-c'' ''oa-c'' ''ob-c'' ''pkg'' ''svc''
          28 30 detached_after_death)) \<and>
   trace (snd (doDaemon (Suc 0) quiet ''a-c'' ''b-c'' ''oa-c'' ''ob-c'' ''pkg'' ''svc'' 28 30
          detached_after_death)) =
     [Open ''a-c'' 3, FlockNB 3 True,
      Open ''oa-c'' (- 1), Creat ''oa-c'' 4, Open ''ob-c'' 5, Remove ''ob-c'',
      OpenDriver 9, InitProcessState 9,
      Transact 0 CHECK_SERVICE_TRANSACTION (checkService_request ''activity'') True 0 9,
      Open ''b-c'' 6, FlockNB 6 True,
      Transact 0 30 (writeStartServiceParcel new_Parcel ''pkg'' ''svc'' 28) False TF_ONE_WAY 9,
      Remove ''oa-c'',
      Killpg 101 SIGTERM]"
  by (simp add: doDaemon_def eval_defs detached_after_death_def checkService_request_def
      TF_ONE_WAY_def)

subsection \<open>One submission\<close>

text \<open>
  Claim C3: a run of \<^verbatim>\<open>doDaemon\<close> adds at most one oneway transaction to those the
  process had submitted before, whatever the other processes do and however long the run is
  followed: the revival request is submitted at most once, and no path of the daemon submits
  it again.
\<close>

theorem C3_at_most_one_submission:
  "length (submitted (snd (doDaemon fuel env indicatorSelfPath indicatorDaemonPath
       observerSelfPath observerDaemonPath packageName serviceName sdkVersion transactCode s0)))
     \<le> Suc (length (submitted s0))"
proof -
  obtain l s1 where ls: "doDaemon_lockSelf 5 env indicatorSelfPath s0 = (l, s1)"
    by (cases "doDaemon_lockSelf 5 env indicatorSelfPath s0")
  obtain st s2 where nw: "notifyAndWaitFor fuel env observerSelfPath observerDaemonPath s1 = (st, s2)"
    by (cases "notifyAndWaitFor fuel env observerSelfPath observerDaemonPath s1")
  have a: "submitted s1 = submitted s0"
    using submitted_lockSelf [of 5 env indicatorSelfPath s0] ls by simp
  have b: "submitted s2 = submitted s1"
    using submitted_notifyAndWaitFor [of fuel env observerSelfPath observerDaemonPath s1] nw by simp
  show ?thesis
  proof (cases "l = 0")
    case True
    with ls a show ?thesis
      by (simp add: doDaemon_phases)
  next
    case False
    show ?thesis
    proof (cases "st = Returned")
      case True
      with ls nw False a b
        monitoring_submitted [of env indicatorDaemonPath observerSelfPath packageName serviceName
          sdkVersion transactCode s2]
      show ?thesis
        by (simp add: doDaemon_phases)
    next
      case notRet: False
      with ls nw False a b show ?thesis
        by (cases st) (simp_all add: doDaemon_phases)
    qed
  qed
qed

subsection \<open>LockingSelf\<close>

text \<open>
  Claim C4 says that an instance whose five attempts to lock its own indicator file have
  all failed terminates without entering the Syncing step or the Monitoring step and without
  submitting a transaction. In the code \<^verbatim>\<open>doDaemon\<close> returns to its caller then, and in the
  detached daemon the caller goes on: the branch of the child in the entry point (lines
  476--515) does not end with a return or an exit, so the process runs the code that follows,
  which the comments at lines 517 and 526 mean for the parent process. In the run below the
  process is the detached daemon and another process holds the lock of its indicator file
  \<open>a-c\<close>. After five failed attempts, each followed by a sleep of 10 ms, the process does not
  end: it calls \<^verbatim>\<open>waitpid\<close> and \<^verbatim>\<open>doDaemon\<close> on the original paths, locks \<open>a\<close>,
  passes the barrier, enters Monitoring and submits one oneway transaction.
\<close>

theorem C4_detached_daemon_goes_on_after_failed_lockingSelf:
  "fst (doDaemon_lockSelf 5 quiet (child_path ''a'')
          (daemon_init quiet ''a'' ''b'' (emit (Fork 0) (emit (Fork 0) detached_locked_out)))) = 0 \<and>
   fst (Java_com_service_framework_native_FwNative_startForceStopDaemon (Suc 0) quiet 0 0
          (Some ''a'') (Some ''b'') (Some ''oa'') (Some ''ob'') ''pkg'' ''svc'' 28
          detached_locked_out) = Returned \<and>
   trace (snd (Java_com_service_framework_native_FwNative_startForceStopDaemon (Suc 0) quiet 0 0
          (Some ''a'') (Some ''b'') (Some ''oa'') (Some ''ob'') ''pkg'' ''svc'' 28
          detached_locked_out)) =
     [Fork 0, Fork 0, Fopen ''a-c'' True, Fopen ''b-c'' True, SetProcessName ''fw_daemon'',
      Open ''a-c'' 3, FlockNB 3 False, Usleep 10000,
      Open ''a-c'' 4, FlockNB 4 False, Usleep 10000,
      Open ''a-c'' 5, FlockNB 5 False, Usleep 10000,
      Open ''a-c'' 6, FlockNB 6 False, Usleep 10000,
      Open ''a-c'' 7, FlockNB 7 False, Usleep 10000,
      Waitpid 0,
      Open ''a'' 8, FlockNB 8 True,
      Open ''oa'' (- 1), Creat ''oa'' 9, Open ''ob'' 10, Remove ''ob'',
      OpenDriver 9, InitProcessState 9,
      Transact 0 CHECK_SERVICE_TRANSACTION (checkService_request ''activity'') True 0 9,
      Open ''b'' 11, FlockNB 11 True,
      Transact 0 30 (writeStartServiceParcel new_Parcel ''pkg'' ''svc'' 28) False TF_ONE_WAY 9,
      Remove ''oa'',
      Killpg 101 SIGTERM] \<and>
   length (submitted (snd (Java_com_service_framework_native_FwNative_startForceStopDaemon (Suc 0)
          quiet 0 0 (Some ''a'') (Some ''b'') (Some ''oa'') (Some ''ob'') ''pkg'' ''svc'' 28
          detached_locked_out))) = 1"
  by (simp add: Java_com_service_framework_native_FwNative_startForceStopDaemon_def
      parent_section_def original_init_def daemon_init_def createFileIfNotExist_def
      setProcessName_def child_path_def doDaemon_def getStartServiceTransactionCode_def
      eval_defs detached_locked_out_def checkService_request_def TF_ONE_WAY_def submitted_def)

subsection \<open>Syncing\<close>




subsection \<open>Waiting for a lock\<close>

text \<open>
  Claim C6 says that the loop of \<^verbatim>\<open>waitForFileLock\<close> releases the lock after each
  successful non-blocking request and ends once the lock is contended. The code has no call
  that releases a lock. In the run below nobody holds the lock of \<open>b\<close> when
  \<^verbatim>\<open>waitForFileLock\<close> is called: the first request takes the lock, the process still
  holds it (with descriptor 3) after the second request, and since every later request on the
  same descriptor succeeds too, the loop never ends: the call does not return, however long it
  is followed, although the process has acquired the lock.
\<close>

theorem C6_waitForFileLock_spins_holding_the_lock:
  "(\<forall>fuel. fst (waitForFileLock fuel quiet ''b'' sibling_dead) = None) \<and>
   mine (snd (waitForFileLock (Suc (Suc 0)) quiet ''b'' sibling_dead)) ''b'' = Some 3 \<and>
   trace (snd (waitForFileLock (Suc (Suc 0)) quiet ''b'' sibling_dead)) =
     [Open ''b'' 3, FlockNB 3 True, Usleep 1000, FlockNB 3 True, Usleep 1000]"
proof -
  define s1 where "s1 = snd (open_or_create quiet ''b'' sibling_dead)"
  have oc: "open_or_create quiet ''b'' sibling_dead = (3, s1)"
    unfolding s1_def by (simp add: eval_defs sibling_dead_def)
  have s1: "fdtab s1 3 = Some ''b''" "mine s1 ''b'' = None" "''b'' \<notin> foreign (tick quiet s1)"
    "fdtab (tick quiet s1) 3 = Some ''b''" "mine (tick quiet s1) ''b'' = None"
    unfolding s1_def by (simp_all add: eval_defs sibling_dead_def)
  have "fst (waitForFileLock_loop fuel quiet 3 s1) = Blocked" for fuel
  proof (cases fuel)
    case 0
    then show ?thesis by simp
  next
    case (Suc n)
    define s2 where "s2 = sys_usleep quiet 1000
        (emit (FlockNB 3 True) ((tick quiet s1)\<lparr>mine := (mine (tick quiet s1))(''b'' \<mapsto> 3)\<rparr>))"
    have fl: "sys_flock_nb quiet 3 s1 =
        (0, emit (FlockNB 3 True) ((tick quiet s1)\<lparr>mine := (mine (tick quiet s1))(''b'' \<mapsto> 3)\<rparr>))"
      using s1 by (simp add: sys_flock_nb_def Let_def)
    have "fdtab s2 3 = Some ''b''" "mine s2 ''b'' = Some 3"
      using s1 by (simp_all add: s2_def sys_defs)
    from drain_stuck [OF this] have "fst (waitForFileLock_loop n quiet 3 s2) = Blocked" .
    with fl Suc show ?thesis
      by (simp add: s2_def)
  qed
  note stuck = this
  have "fst (waitForFileLock fuel quiet ''b'' sibling_dead) = None" for fuel
  proof -
    obtain st s2 where lp: "waitForFileLock_loop fuel quiet 3 s1 = (st, s2)"
      by (cases "waitForFileLock_loop fuel quiet 3 s1")
    with stuck [of fuel] have "st = Blocked"
      by simp
    with oc lp show ?thesis
      by (simp add: waitForFileLock_def)
  qed
  moreover have "mine (snd (waitForFileLock (Suc (Suc 0)) quiet ''b'' sibling_dead)) ''b'' = Some 3"
    by (simp add: waitForFileLock_def eval_defs sibling_dead_def)
  moreover have "trace (snd (waitForFileLock (Suc (Suc 0)) quiet ''b'' sibling_dead)) =
     [Open ''b'' 3, FlockNB 3 True, Usleep 1000, FlockNB 3 True, Usleep 1000]"
    by (simp add: waitForFileLock_def eval_defs sibling_dead_def)
  ultimately show ?thesis
    by blast
qed

subsection \<open>Init\<close>

text \<open>
  Claim C7 says that both roles create all four marker files before guarding begins. On an
  empty file system, the original process (\<open>fork1 = 7\<close>) has created no file when its
  \<^verbatim>\<open>doDaemon\<close> starts, and the detached daemon has created neither of its observer files.
  The whole run of the original process up to its first look for the sibling's observer file
  never creates \<open>b\<close> or \<open>ob\<close>; its own files \<open>a\<close> and \<open>oa\<close> are created by
  \<^verbatim>\<open>lockFile\<close> and \<^verbatim>\<open>notifyAndWaitFor\<close>. The run of the detached daemon creates
  \<open>a-c\<close> and \<open>b-c\<close> with \<^verbatim>\<open>createFileIfNotExist\<close>, and \<open>oa-c\<close> in the Syncing step.
\<close>

theorem C7_init_counterexample:
  "files (original_init quiet 7 (emit (Fork 7) boot)) = {} \<and>
   child_path ''oa'' \<notin> files (daemon_init quiet ''a'' ''b'' (emit (Fork 0) (emit (Fork 0) boot))) \<and>
   child_path ''ob'' \<notin> files (daemon_init quiet ''a'' ''b'' (emit (Fork 0) (emit (Fork 0) boot))) \<and>
   trace (snd (Java_com_service_framework_native_FwNative_startForceStopDaemon 0 quiet 7 0
       (Some ''a'') (Some ''b'') (Some ''oa'') (Some ''ob'') ''pkg'' ''svc'' 28 boot)) =
     [Fork 7, Waitpid 7, Open ''a'' (- 1), Creat ''a'' 3, FlockNB 3 True,
      Open ''oa'' (- 1), Creat ''oa'' 4] \<and>
   ''b'' \<notin> files (snd (Java_com_service_framework_native_FwNative_startForceStopDaemon 0 quiet 7 0
       (Some ''a'') (Some ''b'') (Some ''oa'') (Some ''ob'') ''pkg'' ''svc'' 28 boot)) \<and>
   ''ob'' \<notin> files (snd (Java_com_service_framework_native_FwNative_startForceStopDaemon 0 quiet 7 0
       (Some ''a'') (Some ''b'') (Some ''oa'') (Some ''ob'') ''pkg'' ''svc'' 28 boot)) \<and>
   trace (snd (Java_com_service_framework_native_FwNative_startForceStopDaemon 0 quiet 0 0
       (Some ''a'') (Some ''b'') (Some ''oa'') (Some ''ob'') ''pkg'' ''svc'' 28 boot)) =
     [Fork 0, Fork 0, Fopen ''a-c'' True, Fopen ''b-c'' True, SetProcessName ''fw_daemon'',
      Open ''a-c'' 3, FlockNB 3 True, Open ''oa-c'' (- 1), Creat ''oa-c'' 4]"
  by (simp add: Java_com_service_framework_native_FwNative_startForceStopDaemon_def
      parent_section_def original_init_def daemon_init_def createFileIfNotExist_def
      setProcessName_def child_path_def doDaemon_def getStartServiceTransactionCode_def eval_defs)

text \<open>
  Claim C7 as amended: before its \<^verbatim>\<open>doDaemon\<close>, the original process only waits for the
  middle process and creates no file. The detached daemon calls
  \<^verbatim>\<open>createFileIfNotExist\<close> on exactly two paths, its own and the sibling's indicator
  file with the suffix \<open>-c\<close>, each of which succeeds unless the path cannot be created, and
  then sets its process name; it creates no observer file there. The last two parts say
  where these steps stand in the entry point for each role.
\<close>

theorem C7_init_creates_two_indicator_files:
  "trace (original_init env pid1 s) = trace s @ [Waitpid pid1] \<and>
   (\<exists>ok1 ok2.
      trace (daemon_init env indicatorSelf indicatorDaemon s) =
        trace s @ [Fopen (child_path indicatorSelf) ok1, Fopen (child_path indicatorDaemon) ok2,
                   SetProcessName ''fw_daemon''] \<and>
      (ok1 \<or> child_path indicatorSelf \<in> nocreate s) \<and>
      (ok2 \<or> child_path indicatorDaemon \<in> nocreate s) \<and>
      (ok2 = (child_path indicatorDaemon \<in> files (daemon_init env indicatorSelf indicatorDaemon s)))) \<and>
   (0 < fork1 \<longrightarrow>
      Java_com_service_framework_native_FwNative_startForceStopDaemon fuel env fork1 fork2
        (Some indicatorSelf) (Some indicatorDaemon) (Some observerSelf) (Some observerDaemon)
        packageName serviceName sdkVersion s =
      doDaemon fuel env indicatorSelf indicatorDaemon observerSelf observerDaemon
        packageName serviceName sdkVersion (getStartServiceTransactionCode sdkVersion)
        (original_init env fork1 (emit (Fork fork1) s))) \<and>
   Java_com_service_framework_native_FwNative_startForceStopDaemon fuel env 0 0
        (Some indicatorSelf) (Some indicatorDaemon) (Some observerSelf) (Some observerDaemon)
        packageName serviceName sdkVersion s =
     (case doDaemon fuel env (child_path indicatorSelf) (child_path indicatorDaemon)
             (child_path observerSelf) (child_path observerDaemon)
             packageName serviceName sdkVersion (getStartServiceTransactionCode sdkVersion)
             (daemon_init env indicatorSelf indicatorDaemon (emit (Fork 0) (emit (Fork 0) s))) of
        (Returned, s3) \<Rightarrow>
          parent_section fuel env 0 indicatorSelf indicatorDaemon observerSelf observerDaemon
            packageName serviceName sdkVersion (getStartServiceTransactionCode sdkVersion) s3
      | (st, s3) \<Rightarrow> (st, s3))"
proof -
  have a: "trace (original_init env pid1 s) = trace s @ [Waitpid pid1]"
    by (simp add: original_init_def sys_defs)
  define s1 where "s1 = createFileIfNotExist env (child_path indicatorSelf) s"
  from trace_createFileIfNotExist [of env "child_path indicatorSelf" s]
  obtain ok1 where ok1: "trace s1 = trace s @ [Fopen (child_path indicatorSelf) ok1]"
    "ok1 \<or> child_path indicatorSelf \<in> nocreate s" "nocreate s1 = nocreate s"
    unfolding s1_def by blast
  define s2 where "s2 = createFileIfNotExist env (child_path indicatorDaemon) s1"
  from trace_createFileIfNotExist [of env "child_path indicatorDaemon" s1]
  obtain ok2 where ok2: "trace s2 = trace s1 @ [Fopen (child_path indicatorDaemon) ok2]"
    "ok2 \<or> child_path indicatorDaemon \<in> nocreate s1" "ok2 = (child_path indicatorDaemon \<in> files s2)"
    unfolding s2_def by blast
  have di: "daemon_init env indicatorSelf indicatorDaemon s = setProcessName ''fw_daemon'' s2"
    by (simp add: daemon_init_def s1_def s2_def)
  have b: "\<exists>ok1 ok2.
      trace (daemon_init env indicatorSelf indicatorDaemon s) =
        trace s @ [Fopen (child_path indicatorSelf) ok1, Fopen (child_path indicatorDaemon) ok2,
                   SetProcessName ''fw_daemon''] \<and>
      (ok1 \<or> child_path indicatorSelf \<in> nocreate s) \<and>
      (ok2 \<or> child_path indicatorDaemon \<in> nocreate s) \<and>
      (ok2 = (child_path indicatorDaemon \<in> files (daemon_init env indicatorSelf indicatorDaemon s)))"
    using ok1 ok2 unfolding di
    by (intro exI [of _ ok1] exI [of _ ok2]) (simp add: setProcessName_def emit_def)
  have c: "0 < fork1 \<longrightarrow>
      Java_com_service_framework_native_FwNative_startForceStopDaemon fuel env fork1 fork2
        (Some indicatorSelf) (Some indicatorDaemon) (Some observerSelf) (Some observerDaemon)
        packageName serviceName sdkVersion s =
      doDaemon fuel env indicatorSelf indicatorDaemon observerSelf observerDaemon
        packageName serviceName sdkVersion (getStartServiceTransactionCode sdkVersion)
        (original_init env fork1 (emit (Fork fork1) s))"
    by (simp add: Java_com_service_framework_native_FwNative_startForceStopDaemon_def
        parent_section_def)
  have d: "Java_com_service_framework_native_FwNative_startForceStopDaemon fuel env 0 0
        (Some indicatorSelf) (Some indicatorDaemon) (Some observerSelf) (Some observerDaemon)
        packageName serviceName sdkVersion s =
     (case doDaemon fuel env (child_path indicatorSelf) (child_path indicatorDaemon)
             (child_path observerSelf) (child_path observerDaemon)
             packageName serviceName sdkVersion (getStartServiceTransactionCode sdkVersion)
             (daemon_init env indicatorSelf indicatorDaemon (emit (Fork 0) (emit (Fork 0) s))) of
        (Returned, s3) \<Rightarrow>
          parent_section fuel env 0 indicatorSelf indicatorDaemon observerSelf observerDaemon
            packageName serviceName sdkVersion (getStartServiceTransactionCode sdkVersion) s3
      | (st, s3) \<Rightarrow> (st, s3))"
    by (simp add: Java_com_service_framework_native_FwNative_startForceStopDaemon_def Let_def)
  from a b c d show ?thesis
    by blast
qed

theorem C7_init_witness:
  "Java_com_service_framework_native_FwNative_startForceStopDaemon 0 quiet 7 0
        (Some ''a'') (Some ''b'') (Some ''oa'') (Some ''ob'') ''pkg'' ''svc'' 28 boot =
      doDaemon 0 quiet ''a'' ''b'' ''oa'' ''ob'' ''pkg'' ''svc'' 28 30
        (original_init quiet 7 (emit (Fork 7) boot)) \<and>
   trace (original_init quiet 7 (emit (Fork 7) boot)) = [Fork 7, Waitpid 7] \<and>
   (\<exists>ok1 ok2.
      trace (daemon_init quiet ''a'' ''b'' boot) =
        [Fopen ''a-c'' ok1, Fopen ''b-c'' ok2, SetProcessName ''fw_daemon''] \<and>
      (ok2 = (''b-c'' \<in> files (daemon_init quiet ''a'' ''b'' boot))))"
proof -
  have p: "(0::int) < 7" by simp
  note inst1 = C7_init_creates_two_indicator_files [of quiet 7 "emit (Fork 7) boot" "''a''" "''b''" 7 0 _ "''oa''" "''ob''" "''pkg''" "''svc''" 28]
  note inst2 = C7_init_creates_two_indicator_files [of quiet 7 boot "''a''" "''b''" 7 0 0 "''oa''" "''ob''" "''pkg''" "''svc''" 28]
  have "Java_com_service_framework_native_FwNative_startForceStopDaemon 0 quiet 7 0
        (Some ''a'') (Some ''b'') (Some ''oa'') (Some ''ob'') ''pkg'' ''svc'' 28 boot =
      doDaemon 0 quiet ''a'' ''b'' ''oa'' ''ob'' ''pkg'' ''svc'' 28 30
        (original_init quiet 7 (emit (Fork 7) boot))"
    using inst2 p by (simp add: getStartServiceTransactionCode_def)
  moreover have "trace (original_init quiet 7 (emit (Fork 7) boot)) = [Fork 7, Waitpid 7]"
    using inst1 by (simp add: emit_def boot_def)
  moreover have "\<exists>ok1 ok2.
      trace (daemon_init quiet ''a'' ''b'' boot) =
        [Fopen ''a-c'' ok1, Fopen ''b-c'' ok2, SetProcessName ''fw_daemon''] \<and>
      (ok2 = (''b-c'' \<in> files (daemon_init quiet ''a'' ''b'' boot)))"
    using inst2 by (auto simp: child_path_def boot_def)
  ultimately show ?thesis
    by blast
qed

subsection \<open>Resolving a service\<close>

text \<open>
  Claim C8: \<^verbatim>\<open>getServiceHandle\<close> has no failing outcome. When the reply of the registry
  carries no embedded reference the result is the handle 0; when it carries some, the result is
  the handle field of the first. In both cases the call is one transaction to handle 0 and
  nothing else.
\<close>

theorem C8_getServiceHandle_not_found_is_zero:
  "(registry_reply env serviceName s = [] \<longrightarrow>
      fst (getServiceHandle env serviceName driverFD s) = 0) \<and>
   (\<forall>flat rest. registry_reply env serviceName s = flat # rest \<longrightarrow>
      fst (getServiceHandle env serviceName driverFD s) = fbo_handle flat) \<and>
   snd (getServiceHandle env serviceName driverFD s) =
     emit (Transact 0 CHECK_SERVICE_TRANSACTION (checkService_request serviceName) True 0 driverFD)
       (tick env s)"
  by (simp add: getServiceHandle_def registry_reply_def checkService_request_def
      write_transact_def readObject_def new_Parcel_def Let_def split: list.split)

theorem C8_getServiceHandle_witness:
  "registry_reply quiet ''nosuch'' boot = [] \<and>
   fst (getServiceHandle quiet ''nosuch'' 9 boot) = 0 \<and>
   registry_reply quiet ''activity''
     (boot\<lparr>driver_reply :=
        (\<lambda>h c d. (0, [\<lparr>fbo_type = 0, fbo_flags = 0, fbo_handle = 7, fbo_cookie = 0\<rparr>]))\<rparr>) =
     [\<lparr>fbo_type = 0, fbo_flags = 0, fbo_handle = 7, fbo_cookie = 0\<rparr>] \<and>
   fst (getServiceHandle quiet ''activity'' 9
     (boot\<lparr>driver_reply :=
        (\<lambda>h c d. (0, [\<lparr>fbo_type = 0, fbo_flags = 0, fbo_handle = 7, fbo_cookie = 0\<rparr>]))\<rparr>)) = 7"
  using C8_getServiceHandle_not_found_is_zero [of quiet "''nosuch''" boot 9]
    C8_getServiceHandle_not_found_is_zero [of quiet "''activity''"
     "boot\<lparr>driver_reply :=
        (\<lambda>h c d. (0, [\<lparr>fbo_type = 0, fbo_flags = 0, fbo_handle = 7, fbo_cookie = 0\<rparr>]))\<rparr>" 9]
  by (simp add: registry_reply_def boot_def tick_def quiet_def)

subsection \<open>The entry point\<close>

text \<open>
  Claim C9: when one of the four paths is NULL,
  \<^verbatim>\<open>Java_com_service_framework_native_FwNative_startForceStopDaemon\<close> returns at once:
  the state is the one it was called in, so no process was forked, no file was created or
  locked, and the driver was not opened.
\<close>

theorem C9_null_path_returns_unchanged:
  assumes "indicatorSelfPath = None \<or> indicatorDaemonPath = None \<or>
           observerSelfPath = None \<or> observerDaemonPath = None"
  shows "Java_com_service_framework_native_FwNative_startForceStopDaemon fuel env fork1 fork2
           indicatorSelfPath indicatorDaemonPath observerSelfPath observerDaemonPath
           packageName serviceName sdkVersion s0 = (Returned, s0)"
  using assms
  by (auto simp: Java_com_service_framework_native_FwNative_startForceStopDaemon_def
      split: option.splits)

theorem C9_null_path_witness:
  "Java_com_service_framework_native_FwNative_startForceStopDaemon 10 quiet 1 0
     (Some ''a'') None (Some ''oa'') (Some ''ob'') ''pkg'' ''svc'' 28 boot = (Returned, boot)"
  using C9_null_path_returns_unchanged
    [of "Some ''a''" None "Some ''oa''" "Some ''ob''" 10 quiet 1 0 "''pkg''" "''svc''" 28 boot]
  by simp

subsection \<open>The transaction code\<close>

text \<open>
  Claim C10: \<^verbatim>\<open>getStartServiceTransactionCode\<close> is defined for every integer: 26 for the
  versions 26 and 27, 30 for 28, 24 for 29, and 34 for every other value.
\<close>

theorem C10_getStartServiceTransactionCode_total:
  "(sdkVersion = 26 \<or> sdkVersion = 27 \<longrightarrow> getStartServiceTransactionCode sdkVersion = 26) \<and>
   (sdkVersion = 28 \<longrightarrow> getStartServiceTransactionCode sdkVersion = 30) \<and>
   (sdkVersion = 29 \<longrightarrow> getStartServiceTransactionCode sdkVersion = 24) \<and>
   (sdkVersion \<notin> {26, 27, 28, 29} \<longrightarrow> getStartServiceTransactionCode sdkVersion = 34)"
  by (simp add: getStartServiceTransactionCode_def)

theorem C10_getStartServiceTransactionCode_witness:
  "getStartServiceTransactionCode 26 = 26 \<and> getStartServiceTransactionCode 27 = 26 \<and>
   getStartServiceTransactionCode 28 = 30 \<and> getStartServiceTransactionCode 29 = 24 \<and>
   getStartServiceTransactionCode 25 = 34 \<and> getStartServiceTransactionCode 30 = 34 \<and>
   getStartServiceTransactionCode (- 1) = 34"
  using C10_getStartServiceTransactionCode_total [of 26]
    C10_getStartServiceTransactionCode_total [of 27]
    C10_getStartServiceTransactionCode_total [of 28]
    C10_getStartServiceTransactionCode_total [of 29]
    C10_getStartServiceTransactionCode_total [of 25]
    C10_getStartServiceTransactionCode_total [of 30]
    C10_getStartServiceTransactionCode_total [of "- 1"]
  by simp

end
